theory Spec2Isabelle
  imports Complex_Main
begin

section \<open>Data model\<close>

text \<open>
  The pipeline works on pandas data frames. A frame is modelled row-wise: the ordered list of
  its column names and the list of its records, a record being the list of its named cells.
  A cell is what \<^verbatim>\<open>read_csv\<close> and the pipeline's own steps put into a column: a missing value
  (\<^verbatim>\<open>NaN\<close>, \<^verbatim>\<open>NaT\<close>, \<^verbatim>\<open><NA>\<close>), a text, a number, a boolean or a timestamp.

  Numbers are exact rationals: \<^verbatim>\<open>int64\<close> and \<^verbatim>\<open>float64\<close> values are both \<open>Num\<close>, and the
  rounding error of binary floating point is not modelled. Of a timestamp only the calendar
  date is kept, since the code reads nothing else from it. Which columns a frame has is
  told by \<open>columns\<close>, also when it has no record; the steps that read a column check it there.
\<close>

type_synonym date = "int \<times> int \<times> int"

datatype cell = NA | Txt string | Num rat | Bool bool | Ts date

type_synonym row = "(string \<times> cell) list"

record frame =
  columns :: "string list"
  rows :: "row list"

datatype error = ValueError | KeyError | TypeError | ZeroDivisionError

text \<open>Reading and writing one cell of a record.\<close>

fun get :: "row \<Rightarrow> string \<Rightarrow> cell" where
  "get [] c = NA"
| "get ((k, v) # r) c = (if k = c then v else get r c)"

fun put :: "string \<Rightarrow> cell \<Rightarrow> row \<Rightarrow> row" where
  "put c v [] = [(c, v)]"
| "put c v ((k, w) # r) = (if k = c then (k, v) # r else (k, w) # put c v r)"

text \<open>\<^verbatim>\<open>df[name] = values\<close>: an existing column is overwritten in place, a new one is appended.\<close>

definition set_column :: "string \<Rightarrow> (row \<Rightarrow> cell) \<Rightarrow> frame \<Rightarrow> frame" where
  "set_column name f df =
     \<lparr>columns = (if name \<in> set (columns df) then columns df else columns df @ [name]),
      rows = map (\<lambda>r. put name (f r) r) (rows df)\<rparr>"

text \<open>\<^verbatim>\<open>df[names]\<close>: the listed columns, in the listed order, and nothing else.\<close>

definition select_columns :: "string list \<Rightarrow> frame \<Rightarrow> frame" where
  "select_columns names df =
     \<lparr>columns = names,
      rows = map (\<lambda>r. map (\<lambda>c. (c, get r c)) names) (rows df)\<rparr>"

text \<open>\<^verbatim>\<open>df.dropna(subset=names)\<close>: records with a missing value in one of the columns go.\<close>

definition dropna :: "string list \<Rightarrow> frame \<Rightarrow> frame" where
  "dropna names df = df\<lparr>rows := filter (\<lambda>r. \<forall>c \<in> set names. get r c \<noteq> NA) (rows df)\<rparr>"

subsection \<open>Numbers in cells\<close>

text \<open>
  The numeric value of a cell, \<open>None\<close> standing for \<^verbatim>\<open>NaN\<close>. Booleans count as 0 and 1, as in
  numpy. A text or a timestamp in a numeric column is outside what the pipeline's numeric
  steps are run on; it is read as \<^verbatim>\<open>NaN\<close> here.
\<close>

fun num :: "cell \<Rightarrow> rat option" where
  "num (Num x) = Some x"
| "num (Bool b) = Some (if b then 1 else 0)"
| "num _ = None"

definition of_num :: "rat option \<Rightarrow> cell" where
  "of_num v = (case v of Some x \<Rightarrow> Num x | None \<Rightarrow> NA)"

text \<open>Comparisons of a column with a number: a comparison with \<^verbatim>\<open>NaN\<close> is false.\<close>

definition cell_lt :: "cell \<Rightarrow> rat \<Rightarrow> bool" where
  "cell_lt c b = (case num c of Some x \<Rightarrow> x < b | None \<Rightarrow> False)"

definition cell_gt :: "cell \<Rightarrow> rat \<Rightarrow> bool" where
  "cell_gt c b = (case num c of Some x \<Rightarrow> x > b | None \<Rightarrow> False)"

definition cell_le :: "cell \<Rightarrow> rat \<Rightarrow> bool" where
  "cell_le c b = (case num c of Some x \<Rightarrow> x \<le> b | None \<Rightarrow> False)"

definition cell_ge :: "cell \<Rightarrow> rat \<Rightarrow> bool" where
  "cell_ge c b = (case num c of Some x \<Rightarrow> x \<ge> b | None \<Rightarrow> False)"

text \<open>Rounding to a number of decimals, ties to the even neighbour (numpy and Python).\<close>

definition round_half_even :: "rat \<Rightarrow> int" where
  "round_half_even y =
     (let f = \<lfloor>y\<rfloor>; d = y - of_int f in
      if d < 1 / 2 then f
      else if d > 1 / 2 then f + 1
      else if even f then f else f + 1)"

definition round_decimals :: "nat \<Rightarrow> rat \<Rightarrow> rat" where
  "round_decimals k x = of_int (round_half_even (x * 10 ^ k)) / 10 ^ k"

subsection \<open>Calendar dates and their text form\<close>

definition is_leap :: "int \<Rightarrow> bool" where
  "is_leap y = (y mod 4 = 0 \<and> (y mod 100 \<noteq> 0 \<or> y mod 400 = 0))"

definition days_in_month :: "int \<Rightarrow> int \<Rightarrow> int" where
  "days_in_month y m =
     (if m = 2 then (if is_leap y then 29 else 28)
      else if m \<in> {4, 6, 9, 11} then 30 else 31)"

text \<open>
  The dates of the years 1678 to 2261, which lie wholly inside the range of a pandas
  nanosecond timestamp.
\<close>

definition valid_date :: "date \<Rightarrow> bool" where
  "valid_date dt = (case dt of (y, m, d) \<Rightarrow>
     1678 \<le> y \<and> y \<le> 2261 \<and> 1 \<le> m \<and> m \<le> 12 \<and> 1 \<le> d \<and> d \<le> days_in_month y m)"

definition digit_of :: "char \<Rightarrow> int option" where
  "digit_of c = (let n = (of_char c :: int) in if 48 \<le> n \<and> n \<le> 57 then Some (n - 48) else None)"

definition digit_char :: "int \<Rightarrow> char" where
  "digit_char n = char_of (48 + n mod 10)"

fun digits_value :: "int \<Rightarrow> string \<Rightarrow> int option" where
  "digits_value acc [] = Some acc"
| "digits_value acc (c # cs) =
     (case digit_of c of None \<Rightarrow> None | Some n \<Rightarrow> digits_value (10 * acc + n) cs)"

text \<open>\<^verbatim>\<open>strftime('%Y-%m-%d')\<close>.\<close>

definition strftime_ymd :: "date \<Rightarrow> string" where
  "strftime_ymd dt = (case dt of (y, m, d) \<Rightarrow>
     [digit_char (y div 1000), digit_char (y div 100), digit_char (y div 10), digit_char y,
      CHR ''-'', digit_char (m div 10), digit_char m,
      CHR ''-'', digit_char (d div 10), digit_char d])"

text \<open>
  The parser behind \<^verbatim>\<open>pd.to_datetime\<close>, for the ISO spellings \<^verbatim>\<open>YYYY-MM-DD\<close> and
  \<^verbatim>\<open>YYYY-MM-DD HH:MM:SS\<close> (the form the repository's data generator writes). pandas reads
  further spellings; they are outside this model and count as unparseable.
\<close>

definition parse_hms :: "string \<Rightarrow> bool" where
  "parse_hms s = (case s of
     [h1, h2, c1, m1, m2, c2, s1, s2] \<Rightarrow>
       c1 = CHR '':'' \<and> c2 = CHR '':'' \<and>
       (case (digits_value 0 [h1, h2], digits_value 0 [m1, m2], digits_value 0 [s1, s2]) of
          (Some h, Some m, Some s) \<Rightarrow> h < 24 \<and> m < 60 \<and> s < 60
        | _ \<Rightarrow> False)
   | _ \<Rightarrow> False)"

definition parse_ymd :: "string \<Rightarrow> date option" where
  "parse_ymd s = (case s of
     [y1, y2, y3, y4, c1, m1, m2, c2, d1, d2] \<Rightarrow>
       (if c1 = CHR ''-'' \<and> c2 = CHR ''-'' then
          (case (digits_value 0 [y1, y2, y3, y4], digits_value 0 [m1, m2], digits_value 0 [d1, d2]) of
             (Some y, Some m, Some d) \<Rightarrow> if valid_date (y, m, d) then Some (y, m, d) else None
           | _ \<Rightarrow> None)
        else None)
   | _ \<Rightarrow> None)"

definition parse_datetime :: "string \<Rightarrow> date option" where
  "parse_datetime s =
     (if length s = 10 then parse_ymd s
      else if length s = 19 \<and> s ! 10 = CHR '' '' \<and> parse_hms (drop 11 s) then parse_ymd (take 10 s)
      else None)"

text \<open>
  The parser behind \<^verbatim>\<open>pd.to_numeric\<close>, for plain decimal literals: an optional sign, digits,
  and an optional fraction. Other spellings that pandas reads (exponents, surrounding blanks)
  are outside this model and count as unparseable.
\<close>

definition parse_unsigned :: "string \<Rightarrow> rat option" where
  "parse_unsigned s =
     (let ip = takeWhile (\<lambda>c. c \<noteq> CHR ''.'') s;
          rest = dropWhile (\<lambda>c. c \<noteq> CHR ''.'') s;
          fp = (if rest = [] then [] else tl rest)
      in if ip = [] \<and> fp = [] then None
         else (case (digits_value 0 ip, digits_value 0 fp) of
                 (Some i, Some f) \<Rightarrow> Some (of_int i + of_int f / 10 ^ length fp)
               | _ \<Rightarrow> None))"

definition parse_decimal :: "string \<Rightarrow> rat option" where
  "parse_decimal s = (case s of
     [] \<Rightarrow> None
   | c # cs \<Rightarrow>
       if c = CHR ''-'' then map_option uminus (parse_unsigned cs)
       else if c = CHR ''+'' then parse_unsigned cs
       else parse_unsigned s)"

section \<open>Rule catalog (pipeline_config.py)\<close>

definition REQUIRED_COLUMNS :: "string list" where
  "REQUIRED_COLUMNS =
     [''transaction_id'', ''date'', ''region'', ''product'', ''quantity'', ''price'', ''customer_id'']"

definition MIN_QUANTITY :: rat where "MIN_QUANTITY = 1"
definition MAX_QUANTITY :: rat where "MAX_QUANTITY = 1000"
definition MIN_PRICE :: rat where "MIN_PRICE = 1 / 100"
definition MAX_PRICE :: rat where "MAX_PRICE = 100000"

definition VALID_REGIONS :: "string list" where
  "VALID_REGIONS = [''North'', ''South'', ''East'', ''West'', ''Central'']"

section \<open>Validator (validator.py)\<close>

text \<open>
  \<^verbatim>\<open>self.metrics\<close> is a state that every step may update and that survives a raised
  exception: a step maps the frame and the metrics to an outcome and the new metrics. The
  elapsed time is not part of the model.
\<close>

record vmetrics =
  total_records :: nat
  valid_records :: nat
  duplicates_removed :: nat
  null_values_removed :: nat
  invalid_quantity :: nat
  invalid_price :: nat
  invalid_region :: nat
  schema_errors :: nat
  rejection_rate_percent :: "rat option"

definition init_vmetrics :: vmetrics where
  "init_vmetrics =
     \<lparr>total_records = 0, valid_records = 0, duplicates_removed = 0, null_values_removed = 0,
      invalid_quantity = 0, invalid_price = 0, invalid_region = 0, schema_errors = 0,
      rejection_rate_percent = None\<rparr>"

definition validate_schema :: "frame \<Rightarrow> vmetrics \<Rightarrow> (error + frame) \<times> vmetrics" where
  "validate_schema df m =
     (let missing_cols = set REQUIRED_COLUMNS - set (columns df) in
      if missing_cols \<noteq> {} then (Inl ValueError, m\<lparr>schema_errors := schema_errors m + 1\<rparr>)
      else (Inr (select_columns REQUIRED_COLUMNS df), m))"

text \<open>\<^verbatim>\<open>drop_duplicates(subset=['transaction_id'], keep='first')\<close>.\<close>

fun drop_duplicates_first :: "string \<Rightarrow> cell list \<Rightarrow> row list \<Rightarrow> row list" where
  "drop_duplicates_first key seen [] = []"
| "drop_duplicates_first key seen (r # rs) =
     (if get r key \<in> set seen then drop_duplicates_first key seen rs
      else r # drop_duplicates_first key (get r key # seen) rs)"

definition remove_duplicates :: "frame \<Rightarrow> vmetrics \<Rightarrow> frame \<times> vmetrics" where
  "remove_duplicates df m =
     (let initial_count = length (rows df);
          df' = df\<lparr>rows := drop_duplicates_first ''transaction_id'' [] (rows df)\<rparr>;
          duplicates = initial_count - length (rows df')
      in (df', m\<lparr>duplicates_removed := duplicates\<rparr>))"

definition remove_nulls :: "frame \<Rightarrow> vmetrics \<Rightarrow> frame \<times> vmetrics" where
  "remove_nulls df m =
     (let initial_count = length (rows df);
          df' = dropna (columns df) df;
          nulls = initial_count - length (rows df')
      in (df', m\<lparr>null_values_removed := nulls\<rparr>))"

text \<open>\<^verbatim>\<open>pd.to_numeric(..., errors='coerce')\<close> on one cell.\<close>

fun to_numeric :: "cell \<Rightarrow> cell" where
  "to_numeric (Txt s) = of_num (parse_decimal s)"
| "to_numeric (Num x) = Num x"
| "to_numeric (Bool b) = Num (if b then 1 else 0)"
| "to_numeric _ = NA"

definition is_integral :: "cell \<Rightarrow> bool" where
  "is_integral c = (case c of Num x \<Rightarrow> of_int \<lfloor>x\<rfloor> = x | _ \<Rightarrow> True)"

text \<open>
  \<^verbatim>\<open>astype('Int64')\<close> raises a TypeError when a value of the column is not a whole number;
  the \<^verbatim>\<open>except\<close> clause logs it and raises it again.
\<close>

definition validate_data_types :: "frame \<Rightarrow> vmetrics \<Rightarrow> (error + frame) \<times> vmetrics" where
  "validate_data_types df m =
     (let df1 = set_column ''quantity'' (\<lambda>r. to_numeric (get r ''quantity'')) df in
      if \<not> (\<forall>r \<in> set (rows df1). is_integral (get r ''quantity'')) then (Inl TypeError, m)
      else
        let df2 = set_column ''price'' (\<lambda>r. to_numeric (get r ''price'')) df1;
            df3 = dropna [''quantity'', ''price''] df2
        in (Inr df3, m))"

text \<open>\<^verbatim>\<open>pd.to_datetime(..., errors='coerce')\<close> on one cell.\<close>

fun to_datetime_coerce :: "cell \<Rightarrow> cell" where
  "to_datetime_coerce (Txt s) = (case parse_datetime s of Some d \<Rightarrow> Ts d | None \<Rightarrow> NA)"
| "to_datetime_coerce (Ts d) = Ts d"
| "to_datetime_coerce _ = NA"

fun dt_strftime_ymd :: "cell \<Rightarrow> cell" where
  "dt_strftime_ymd (Ts d) = Txt (strftime_ymd d)"
| "dt_strftime_ymd _ = NA"

definition validate_dates :: "frame \<Rightarrow> vmetrics \<Rightarrow> (error + frame) \<times> vmetrics" where
  "validate_dates df m =
     (let df1 = set_column ''date'' (\<lambda>r. to_datetime_coerce (get r ''date'')) df;
          df2 = dropna [''date''] df1;
          df3 = set_column ''date'' (\<lambda>r. dt_strftime_ymd (get r ''date'')) df2
      in (Inr df3, m))"

definition isin :: "cell \<Rightarrow> string list \<Rightarrow> bool" where
  "isin c vs = (case c of Txt s \<Rightarrow> s \<in> set vs | _ \<Rightarrow> False)"

definition validate_business_rules :: "frame \<Rightarrow> vmetrics \<Rightarrow> frame \<times> vmetrics" where
  "validate_business_rules df m =
     (let invalid_qty = filter (\<lambda>r. cell_lt (get r ''quantity'') MIN_QUANTITY \<or>
                                     cell_gt (get r ''quantity'') MAX_QUANTITY) (rows df);
          m1 = m\<lparr>invalid_quantity := length invalid_qty\<rparr>;
          invalid_price_rows = filter (\<lambda>r. cell_lt (get r ''price'') MIN_PRICE \<or>
                                            cell_gt (get r ''price'') MAX_PRICE) (rows df);
          m2 = m1\<lparr>invalid_price := length invalid_price_rows\<rparr>;
          invalid_region_rows = filter (\<lambda>r. \<not> isin (get r ''region'') VALID_REGIONS) (rows df);
          m3 = m2\<lparr>invalid_region := length invalid_region_rows\<rparr>;
          df' = df\<lparr>rows := filter (\<lambda>r.
                   cell_ge (get r ''quantity'') MIN_QUANTITY \<and>
                   cell_le (get r ''quantity'') MAX_QUANTITY \<and>
                   cell_ge (get r ''price'') MIN_PRICE \<and>
                   cell_le (get r ''price'') MAX_PRICE \<and>
                   isin (get r ''region'') VALID_REGIONS) (rows df)\<rparr>
      in (df', m3))"

text \<open>
  \<^verbatim>\<open>process_file\<close> of the validator, between reading the raw frame and returning the
  metrics. Reading from and writing to the object store are the caller's business; the write
  happens after the last rule and before the rejection rate is computed. The rate divides two
  Python integers, which raises ZeroDivisionError for a zero divisor.
\<close>

definition py_true_div :: "nat \<Rightarrow> nat \<Rightarrow> error + rat" where
  "py_true_div a b = (if b = 0 then Inl ZeroDivisionError else Inr (of_nat a / of_nat b))"

definition validator_process_file :: "frame \<Rightarrow> vmetrics \<Rightarrow> (error + frame) \<times> vmetrics" where
  "validator_process_file df0 m0 =
     (let m1 = m0\<lparr>total_records := length (rows df0)\<rparr> in
      case validate_schema df0 m1 of
        (Inl e, m2) \<Rightarrow> (Inl e, m2)
      | (Inr df1, m2) \<Rightarrow>
     (case remove_duplicates df1 m2 of (df2, m3) \<Rightarrow>
     (case remove_nulls df2 m3 of (df3, m4) \<Rightarrow>
     (case validate_data_types df3 m4 of
        (Inl e, m5) \<Rightarrow> (Inl e, m5)
      | (Inr df4, m5) \<Rightarrow>
     (case validate_dates df4 m5 of
        (Inl e, m6) \<Rightarrow> (Inl e, m6)
      | (Inr df5, m6) \<Rightarrow>
     (case validate_business_rules df5 m6 of (df6, m7) \<Rightarrow>
        let m8 = m7\<lparr>valid_records := length (rows df6)\<rparr> in
        (case py_true_div (total_records m8 - valid_records m8) (total_records m8) of
           Inl e \<Rightarrow> (Inl e, m8)
         | Inr q \<Rightarrow>
             (Inr df6, m8\<lparr>rejection_rate_percent := Some (round_decimals 2 (q * 100))\<rparr>))))))))"

section \<open>Transformer (transformer.py)\<close>

subsection \<open>Series operations\<close>

definition column :: "string \<Rightarrow> frame \<Rightarrow> cell list" where
  "column c df = map (\<lambda>r. get r c) (rows df)"

text \<open>The numbers of a series, missing values skipped.\<close>

definition non_na :: "cell list \<Rightarrow> rat list" where
  "non_na cs = List.map_filter num cs"

definition series_sum :: "cell list \<Rightarrow> rat" where
  "series_sum cs = sum_list (non_na cs)"

definition mean :: "rat list \<Rightarrow> cell" where
  "mean xs = (if xs = [] then NA else Num (sum_list xs / of_nat (length xs)))"

definition series_mean :: "cell list \<Rightarrow> cell" where
  "series_mean cs = mean (non_na cs)"

definition median :: "rat list \<Rightarrow> cell" where
  "median xs =
     (let s = sort xs; n = length s in
      if n = 0 then NA
      else if odd n then Num (s ! (n div 2))
      else Num ((s ! (n div 2 - 1) + s ! (n div 2)) / 2))"

text \<open>\<^verbatim>\<open>Series.quantile(q)\<close> with linear interpolation between the two nearest ranks.\<close>

definition quantile :: "rat \<Rightarrow> rat list \<Rightarrow> cell" where
  "quantile q xs =
     (let s = sort xs; n = length s in
      if n = 0 then NA
      else
        let h = of_nat (n - 1) * q;
            lo = nat \<lfloor>h\<rfloor>;
            hi = min (lo + 1) (n - 1)
        in Num (s ! lo + (h - of_nat lo) * (s ! hi - s ! lo)))"

definition cell_mul :: "cell \<Rightarrow> cell \<Rightarrow> cell" where
  "cell_mul a b = (case (num a, num b) of (Some x, Some y) \<Rightarrow> Num (x * y) | _ \<Rightarrow> NA)"

definition cell_round :: "nat \<Rightarrow> cell \<Rightarrow> cell" where
  "cell_round k c = (case num c of Some x \<Rightarrow> Num (round_decimals k x) | None \<Rightarrow> NA)"

text \<open>Comparisons of two series, cell by cell: a comparison with \<^verbatim>\<open>NaN\<close> is false.\<close>

definition cell_gt_cell :: "cell \<Rightarrow> cell \<Rightarrow> bool" where
  "cell_gt_cell a b = (case (num a, num b) of (Some x, Some y) \<Rightarrow> x > y | _ \<Rightarrow> False)"

definition cell_ge_cell :: "cell \<Rightarrow> cell \<Rightarrow> bool" where
  "cell_ge_cell a b = (case (num a, num b) of (Some x, Some y) \<Rightarrow> x \<ge> y | _ \<Rightarrow> False)"

subsection \<open>Grouping\<close>

text \<open>
  \<^verbatim>\<open>df.groupby(key)[val]\<close>: the numbers of column \<open>val\<close> in the records whose \<open>key\<close> is
  \<open>k\<close>. Records with a missing key belong to no group, and get a missing value from every
  grouped operation.
\<close>

definition group_values :: "string \<Rightarrow> string \<Rightarrow> frame \<Rightarrow> cell \<Rightarrow> rat list" where
  "group_values key val df k = non_na (map (\<lambda>r. get r val) (filter (\<lambda>r. get r key = k) (rows df)))"

definition groupby_transform :: "string \<Rightarrow> string \<Rightarrow> (rat list \<Rightarrow> cell) \<Rightarrow> frame \<Rightarrow> row \<Rightarrow> cell" where
  "groupby_transform key val agg df r =
     (if get r key = NA then NA else agg (group_values key val df (get r key)))"

text \<open>
  \<^verbatim>\<open>rank()\<close> with its default method: values are ranked in ascending order from 1, and tied
  values share the average of the positions they occupy. With \<open>lt\<close> values below \<open>v\<close> and \<open>eq\<close>
  values equal to it, these positions are \<open>lt + 1, \<dots>, lt + eq\<close>.
\<close>

definition average_rank :: "rat list \<Rightarrow> rat \<Rightarrow> rat" where
  "average_rank vs v =
     (let lt = length (filter (\<lambda>x. x < v) vs);
          eq = length (filter (\<lambda>x. x = v) vs)
      in of_nat (sum_list [lt + 1 ..< lt + eq + 1]) / of_nat eq)"

text \<open>\<^verbatim>\<open>df.groupby(key)[val].rank(pct=True)\<close>: the rank divided by the size of the group.\<close>

definition groupby_rank_pct :: "string \<Rightarrow> string \<Rightarrow> frame \<Rightarrow> row \<Rightarrow> cell" where
  "groupby_rank_pct key val df r =
     (if get r key = NA then NA
      else case num (get r val) of
             None \<Rightarrow> NA
           | Some v \<Rightarrow>
               let vs = group_values key val df (get r key)
               in Num (average_rank vs v / of_nat (length vs)))"

text \<open>
  \<^verbatim>\<open>df.merge(right[[c]], left_on=key, right_index=True, how='left')\<close> for a right-hand frame
  with one row per key: every record keeps its place and gets the right-hand value \<open>f r\<close> of
  its key. When the left frame already has a column \<open>c\<close>, pandas renames the two columns to
  \<open>c_x\<close> and \<open>c_y\<close>, and the result has no column \<open>c\<close>.
\<close>

definition merge_left :: "string \<Rightarrow> (row \<Rightarrow> cell) \<Rightarrow> frame \<Rightarrow> frame" where
  "merge_left c f df =
     (if c \<in> set (columns df) then
        \<lparr>columns = map (\<lambda>x. if x = c then c @ ''_x'' else x) (columns df) @ [c @ ''_y''],
         rows = map (\<lambda>r. map (\<lambda>(k, v). (if k = c then c @ ''_x'' else k, v)) r @ [(c @ ''_y'', f r)])
                  (rows df)\<rparr>
      else
        \<lparr>columns = columns df @ [c],
         rows = map (\<lambda>r. put c (f r) r) (rows df)\<rparr>)"

subsection \<open>Calendar arithmetic\<close>

definition day_of_year :: "date \<Rightarrow> int" where
  "day_of_year dt = (case dt of (y, m, d) \<Rightarrow> sum_list (map (days_in_month y) [1 .. m - 1]) + d)"

text \<open>The number of the day counted from 0001-01-01 as day 1, a Monday.\<close>

definition to_ordinal :: "date \<Rightarrow> int" where
  "to_ordinal dt = (case dt of (y, m, d) \<Rightarrow>
     365 * (y - 1) + (y - 1) div 4 - (y - 1) div 100 + (y - 1) div 400 + day_of_year dt)"

definition dayofweek :: "date \<Rightarrow> int" where
  "dayofweek dt = (to_ordinal dt + 6) mod 7"

definition weeks_in_year :: "int \<Rightarrow> int" where
  "weeks_in_year y =
     (let p = (\<lambda>y. (y + y div 4 - y div 100 + y div 400) mod 7)
      in if p y = 4 \<or> p (y - 1) = 3 then 53 else 52)"

definition iso_week :: "date \<Rightarrow> int" where
  "iso_week dt = (case dt of (y, m, d) \<Rightarrow>
     let w = (day_of_year dt + 9 - dayofweek dt) div 7 in
     if w < 1 then weeks_in_year (y - 1)
     else if w > weeks_in_year y then 1
     else w)"

definition month_names :: "string list" where
  "month_names = [''January'', ''February'', ''March'', ''April'', ''May'', ''June'', ''July'',
     ''August'', ''September'', ''October'', ''November'', ''December'']"

definition day_names :: "string list" where
  "day_names = [''Monday'', ''Tuesday'', ''Wednesday'', ''Thursday'', ''Friday'', ''Saturday'',
     ''Sunday'']"

text \<open>The \<^verbatim>\<open>.dt\<close> accessors: a missing timestamp gives a missing value.\<close>

definition dt_field :: "(date \<Rightarrow> cell) \<Rightarrow> cell \<Rightarrow> cell" where
  "dt_field f c = (case c of Ts d \<Rightarrow> f d | _ \<Rightarrow> NA)"

subsection \<open>The enrichment steps\<close>

record tmetrics =
  records_processed :: nat
  columns_added :: int
  avg_revenue :: cell
  total_revenue :: rat

definition init_tmetrics :: tmetrics where
  "init_tmetrics = \<lparr>records_processed = 0, columns_added = 0, avg_revenue = Num 0, total_revenue = 0\<rparr>"

definition PRODUCT_CATEGORIES :: "(string \<times> string) list" where
  "PRODUCT_CATEGORIES =
     [(''Laptop'', ''Computing''), (''Desktop'', ''Computing''), (''Monitor'', ''Peripherals''),
      (''Keyboard'', ''Peripherals''), (''Mouse'', ''Peripherals''), (''Headset'', ''Audio''),
      (''Webcam'', ''Video''), (''Router'', ''Networking''), (''Switch'', ''Networking''),
      (''Cable'', ''Accessories'')]"

text \<open>The upper bound \<open>None\<close> is \<^verbatim>\<open>float('inf')\<close>.\<close>

definition REVENUE_TIERS :: "(string \<times> rat \<times> rat option) list" where
  "REVENUE_TIERS =
     [(''Low'', 0, Some 100), (''Medium'', 100, Some 500), (''High'', 500, Some 2000),
      (''Premium'', 2000, None)]"

text \<open>A step that reads a column the frame does not have raises KeyError.\<close>

definition has_columns :: "string list \<Rightarrow> frame \<Rightarrow> bool" where
  "has_columns names df = (set names \<subseteq> set (columns df))"

definition calculate_revenue :: "frame \<Rightarrow> tmetrics \<Rightarrow> (error + frame) \<times> tmetrics" where
  "calculate_revenue df m =
     (if \<not> has_columns [''quantity'', ''price''] df then (Inl KeyError, m)
      else
        let df1 = set_column ''revenue'' (\<lambda>r. cell_mul (get r ''quantity'') (get r ''price'')) df;
            df2 = set_column ''revenue'' (\<lambda>r. cell_round 2 (get r ''revenue'')) df1;
            m1 = m\<lparr>total_revenue := series_sum (column ''revenue'' df2)\<rparr>;
            m2 = m1\<lparr>avg_revenue := series_mean (column ''revenue'' df2)\<rparr>
        in (Inr df2, m2))"

text \<open>
  \<^verbatim>\<open>pd.to_datetime(df['date'])\<close> without \<^verbatim>\<open>errors='coerce'\<close> raises a ValueError at the
  first value it cannot parse.
\<close>

definition parseable :: "cell \<Rightarrow> bool" where
  "parseable c = (case c of
     NA \<Rightarrow> True | Ts d \<Rightarrow> True | Txt s \<Rightarrow> parse_datetime s \<noteq> None | _ \<Rightarrow> False)"

definition extract_date_components :: "frame \<Rightarrow> error + frame" where
  "extract_date_components df =
     (if \<not> has_columns [''date''] df then Inl KeyError
      else if \<not> (\<forall>r \<in> set (rows df). parseable (get r ''date'')) then Inl ValueError
      else
        let df1 = set_column ''date'' (\<lambda>r. to_datetime_coerce (get r ''date'')) df;
            df2 = set_column ''year'' (\<lambda>r. dt_field (\<lambda>(y, m, d). Num (of_int y)) (get r ''date'')) df1;
            df3 = set_column ''month'' (\<lambda>r. dt_field (\<lambda>(y, m, d). Num (of_int m)) (get r ''date'')) df2;
            df4 = set_column ''month_name''
                    (\<lambda>r. dt_field (\<lambda>(y, m, d). Txt (month_names ! nat (m - 1))) (get r ''date'')) df3;
            df5 = set_column ''quarter''
                    (\<lambda>r. dt_field (\<lambda>(y, m, d). Num (of_int ((m - 1) div 3 + 1))) (get r ''date'')) df4;
            df6 = set_column ''day_of_week''
                    (\<lambda>r. dt_field (\<lambda>d. Num (of_int (dayofweek d))) (get r ''date'')) df5;
            df7 = set_column ''day_name''
                    (\<lambda>r. dt_field (\<lambda>d. Txt (day_names ! nat (dayofweek d))) (get r ''date'')) df6;
            df8 = set_column ''week_of_year''
                    (\<lambda>r. dt_field (\<lambda>d. Num (of_int (iso_week d))) (get r ''date'')) df7;
            df9 = set_column ''is_business_day'' (\<lambda>r. Bool (cell_lt (get r ''day_of_week'') 5)) df8;
            df10 = set_column ''date'' (\<lambda>r. dt_strftime_ymd (get r ''date'')) df9
        in Inr df10)"

fun get_revenue_category :: "(string \<times> rat \<times> rat option) list \<Rightarrow> cell \<Rightarrow> string" where
  "get_revenue_category [] revenue = ''Premium''"
| "get_revenue_category ((category, min_val, max_val) # tiers) revenue =
     (if cell_ge revenue min_val \<and>
         (case max_val of Some hi \<Rightarrow> cell_lt revenue hi | None \<Rightarrow> num revenue \<noteq> None)
      then category
      else get_revenue_category tiers revenue)"

definition categorize_revenue :: "frame \<Rightarrow> error + frame" where
  "categorize_revenue df =
     (if \<not> has_columns [''revenue''] df then Inl KeyError
      else Inr (set_column ''revenue_category''
                  (\<lambda>r. Txt (get_revenue_category REVENUE_TIERS (get r ''revenue''))) df))"

definition map_dict :: "(string \<times> string) list \<Rightarrow> cell \<Rightarrow> cell" where
  "map_dict d c = (case c of
     Txt s \<Rightarrow> (case map_of d s of Some v \<Rightarrow> Txt v | None \<Rightarrow> NA)
   | _ \<Rightarrow> NA)"

definition fillna :: "cell \<Rightarrow> cell \<Rightarrow> cell" where
  "fillna v c = (if c = NA then v else c)"

text \<open>
  The in-place \<^verbatim>\<open>fillna\<close> on the selected column is taken to reach the frame, as it does in
  pandas without copy-on-write.
\<close>

definition add_product_categories :: "frame \<Rightarrow> error + frame" where
  "add_product_categories df =
     (if \<not> has_columns [''product''] df then Inl KeyError
      else
        let df1 = set_column ''product_category'' (\<lambda>r. map_dict PRODUCT_CATEGORIES (get r ''product'')) df;
            unmapped = length (filter (\<lambda>c. c = NA) (column ''product_category'' df1))
        in if unmapped > 0
           then Inr (set_column ''product_category''
                       (\<lambda>r. fillna (Txt ''Other'') (get r ''product_category'')) df1)
           else Inr df1)"

definition get_customer_segment :: "rat \<Rightarrow> string" where
  "get_customer_segment total_revenue' =
     (if total_revenue' < 500 then ''Bronze''
      else if total_revenue' < 2000 then ''Silver''
      else if total_revenue' < 5000 then ''Gold''
      else ''Platinum'')"

text \<open>
  The per-customer sums are taken over the groups of \<^verbatim>\<open>customer_id\<close>, the segment of each
  sum is computed, and the segments are merged back on the key. The purchase count is
  computed by the source and not used. After the merge the source reads
  \<^verbatim>\<open>df['customer_segment']\<close> for its log lines, which raises KeyError when the merge has
  renamed that column.
\<close>

definition add_customer_segments :: "frame \<Rightarrow> error + frame" where
  "add_customer_segments df =
     (if \<not> has_columns [''customer_id'', ''revenue'', ''transaction_id''] df then Inl KeyError
      else
        let customer_segment = groupby_transform ''customer_id'' ''revenue''
              (\<lambda>xs. Txt (get_customer_segment (sum_list xs))) df;
            df1 = merge_left ''customer_segment'' customer_segment df
        in if \<not> has_columns [''customer_segment''] df1 then Inl KeyError
           else Inr df1)"

definition add_price_indicators :: "frame \<Rightarrow> error + frame" where
  "add_price_indicators df =
     (if \<not> has_columns [''product'', ''price'', ''revenue''] df then Inl KeyError
      else
        let df1 = set_column ''price_percentile'' (groupby_rank_pct ''product'' ''price'' df) df;
            revenue_90th = quantile (9 / 10) (non_na (column ''revenue'' df1));
            df2 = set_column ''is_high_value''
                    (\<lambda>r. Bool (cell_ge_cell (get r ''revenue'') revenue_90th)) df1
        in Inr df2)"

definition add_quantity_indicators :: "frame \<Rightarrow> error + frame" where
  "add_quantity_indicators df =
     (if \<not> has_columns [''product'', ''quantity''] df then Inl KeyError
      else
        let product_medians = groupby_transform ''product'' ''quantity'' median df;
            df1 = set_column ''is_bulk_purchase''
                    (\<lambda>r. Bool (cell_gt_cell (get r ''quantity'') (product_medians r))) df;
            df2 = set_column ''quantity_percentile'' (groupby_rank_pct ''product'' ''quantity'' df1) df1
        in Inr df2)"

definition add_regional_indicators :: "frame \<Rightarrow> error + frame" where
  "add_regional_indicators df =
     (if \<not> has_columns [''region'', ''revenue''] df then Inl KeyError
      else
        let regional_avg = groupby_transform ''region'' ''revenue'' mean df;
            df1 = set_column ''regional_avg_revenue'' (\<lambda>r. cell_round 2 (regional_avg r)) df;
            df2 = set_column ''above_regional_avg''
                    (\<lambda>r. Bool (cell_gt_cell (get r ''revenue'') (get r ''regional_avg_revenue''))) df1
        in Inr df2)"

definition transform_data :: "frame \<Rightarrow> tmetrics \<Rightarrow> (error + frame) \<times> tmetrics" where
  "transform_data df m =
     (let initial_columns = length (columns df) in
      case calculate_revenue df m of
        (Inl e, m1) \<Rightarrow> (Inl e, m1)
      | (Inr df1, m1) \<Rightarrow>
     (case extract_date_components df1 of Inl e \<Rightarrow> (Inl e, m1) | Inr df2 \<Rightarrow>
     (case categorize_revenue df2 of Inl e \<Rightarrow> (Inl e, m1) | Inr df3 \<Rightarrow>
     (case add_product_categories df3 of Inl e \<Rightarrow> (Inl e, m1) | Inr df4 \<Rightarrow>
     (case add_customer_segments df4 of Inl e \<Rightarrow> (Inl e, m1) | Inr df5 \<Rightarrow>
     (case add_price_indicators df5 of Inl e \<Rightarrow> (Inl e, m1) | Inr df6 \<Rightarrow>
     (case add_quantity_indicators df6 of Inl e \<Rightarrow> (Inl e, m1) | Inr df7 \<Rightarrow>
     (case add_regional_indicators df7 of Inl e \<Rightarrow> (Inl e, m1) | Inr df8 \<Rightarrow>
        let final_columns = length (columns df8);
            m2 = m1\<lparr>columns_added := int final_columns - int initial_columns\<rparr>;
            m3 = m2\<lparr>records_processed := length (rows df8)\<rparr>
        in (Inr df8, m3)))))))))"

section \<open>Predicates and example batches used by the theorems\<close>

text \<open>Every cell of the named columns is a number, as \<^verbatim>\<open>validate_data_types\<close> leaves them.\<close>

definition numeric_columns :: "string list \<Rightarrow> frame \<Rightarrow> bool" where
  "numeric_columns names df =
     (\<forall>r \<in> set (rows df). \<forall>c \<in> set names. (case get r c of Num x \<Rightarrow> True | _ \<Rightarrow> False))"

definition ex8_missing :: frame where
  "ex8_missing = \<lparr>columns = [''transaction_id'', ''date'', ''region'', ''product'', ''quantity'', ''price''],
     rows = [[(''transaction_id'', Txt ''T1''), (''date'', Txt ''2024-01-01''), (''region'', Txt ''North''),
              (''product'', Txt ''Laptop''), (''quantity'', Num 2), (''price'', Num 500)]]\<rparr>"

definition ex8_extra :: frame where
  "ex8_extra = \<lparr>columns = [''note'', ''customer_id'', ''price'', ''quantity'', ''product'', ''region'', ''date'', ''transaction_id''],
     rows = [[(''note'', Txt ''gift''), (''customer_id'', Txt ''C1''), (''price'', Num 500), (''quantity'', Num 2),
              (''product'', Txt ''Laptop''), (''region'', Txt ''North''), (''date'', Txt ''2024-01-01''),
              (''transaction_id'', Txt ''T1'')]]\<rparr>"

definition empty_batch :: frame where
  "empty_batch = \<lparr>columns = REQUIRED_COLUMNS, rows = []\<rparr>"

definition ex5_at_bound :: row where
  "ex5_at_bound = [(''transaction_id'', Txt ''T1''), (''date'', Txt ''2024-01-01''), (''region'', Txt ''North''),
       (''product'', Txt ''Laptop''), (''quantity'', Num 1000), (''price'', Num 10), (''customer_id'', Txt ''C1'')]"

definition ex5_above_bound :: row where
  "ex5_above_bound = [(''transaction_id'', Txt ''T2''), (''date'', Txt ''2024-01-01''), (''region'', Txt ''North''),
       (''product'', Txt ''Laptop''), (''quantity'', Num 1001), (''price'', Num 10), (''customer_id'', Txt ''C1'')]"

definition ex5_two_violations :: row where
  "ex5_two_violations = [(''transaction_id'', Txt ''T3''), (''date'', Txt ''2024-01-01''), (''region'', Txt ''Mars''),
       (''product'', Txt ''Laptop''), (''quantity'', Num 0), (''price'', Num 10), (''customer_id'', Txt ''C2'')]"

definition ex5_free :: row where
  "ex5_free = [(''transaction_id'', Txt ''T4''), (''date'', Txt ''2024-01-01''), (''region'', Txt ''South''),
       (''product'', Txt ''Cable''), (''quantity'', Num 5), (''price'', Num 0), (''customer_id'', Txt ''C3'')]"

definition ex5 :: frame where
  "ex5 = \<lparr>columns = REQUIRED_COLUMNS,
           rows = [ex5_at_bound, ex5_above_bound, ex5_two_violations, ex5_free]\<rparr>"

section \<open>Basic facts about records and frames\<close>

lemma get_put [simp]: "get (put c v r) c' = (if c' = c then v else get r c')"
  by (induction r) auto

lemma get_select [simp]: "get (map (\<lambda>c. (c, get r c)) names) c' = (if c' \<in> set names then get r c' else NA)"
  by (induction names) auto

lemma rows_set_column [simp]: "rows (set_column n f df) = map (\<lambda>r. put n (f r) r) (rows df)"
  by (simp add: set_column_def)

lemma columns_set_column [simp]:
  "columns (set_column n f df) = (if n \<in> set (columns df) then columns df else columns df @ [n])"
  by (simp add: set_column_def)

lemma schema_raises_iff:
  "(\<exists>e. fst (validate_schema df m) = Inl e) \<longleftrightarrow> \<not> set REQUIRED_COLUMNS \<subseteq> set (columns df)"
  by (auto simp: validate_schema_def Let_def)

section \<open>Schema check\<close>

text \<open>
  Claim C8. The schema check raises its error exactly when a required column is absent from
  the raw batch; the run then ends with that error before any other rule has run (only the
  record count and the schema-error counter of the metrics have changed) and returns no
  batch. When every required column is present, the check returns a batch with exactly the
  required columns in the catalog's order, in every record, with the cells of these columns
  unchanged.
\<close>

theorem C8_schema_check:
  "((\<exists>e. fst (validate_schema df m) = Inl e) \<longleftrightarrow> \<not> set REQUIRED_COLUMNS \<subseteq> set (columns df))
   \<and> (\<not> set REQUIRED_COLUMNS \<subseteq> set (columns df) \<longrightarrow>
        validate_schema df m = (Inl ValueError, m\<lparr>schema_errors := schema_errors m + 1\<rparr>)
        \<and> validator_process_file df m =
            (Inl ValueError, m\<lparr>total_records := length (rows df), schema_errors := schema_errors m + 1\<rparr>))
   \<and> (set REQUIRED_COLUMNS \<subseteq> set (columns df) \<longrightarrow>
        (\<exists>out. validate_schema df m = (Inr out, m)
           \<and> columns out = REQUIRED_COLUMNS
           \<and> map (map fst) (rows out) = replicate (length (rows df)) REQUIRED_COLUMNS
           \<and> (\<forall>c \<in> set REQUIRED_COLUMNS. column c out = column c df)))"
proof (intro conjI impI)
  show "(\<exists>e. fst (validate_schema df m) = Inl e) \<longleftrightarrow> \<not> set REQUIRED_COLUMNS \<subseteq> set (columns df)"
    by (rule schema_raises_iff)
next
  assume miss: "\<not> set REQUIRED_COLUMNS \<subseteq> set (columns df)"
  then show s: "validate_schema df m = (Inl ValueError, m\<lparr>schema_errors := schema_errors m + 1\<rparr>)"
    by (auto simp: validate_schema_def Let_def)
  from miss have "validate_schema df (m\<lparr>total_records := length (rows df)\<rparr>) =
      (Inl ValueError, m\<lparr>total_records := length (rows df), schema_errors := schema_errors m + 1\<rparr>)"
    by (auto simp: validate_schema_def Let_def)
  then show "validator_process_file df m =
      (Inl ValueError, m\<lparr>total_records := length (rows df), schema_errors := schema_errors m + 1\<rparr>)"
    by (simp add: validator_process_file_def Let_def)
next
  assume pres: "set REQUIRED_COLUMNS \<subseteq> set (columns df)"
  let ?out = "select_columns REQUIRED_COLUMNS df"
  have 1: "validate_schema df m = (Inr ?out, m)"
    using pres by (auto simp: validate_schema_def Let_def)
  have 2: "columns ?out = REQUIRED_COLUMNS"
    by (simp add: select_columns_def)
  have 3: "map (map fst) (rows ?out) = replicate (length (rows df)) REQUIRED_COLUMNS"
    by (simp add: select_columns_def o_def map_replicate_const)
  have 4: "\<forall>c \<in> set REQUIRED_COLUMNS. column c ?out = column c df"
    by (simp add: select_columns_def column_def o_def)
  from 1 2 3 4 show "\<exists>out. validate_schema df m = (Inr out, m)
           \<and> columns out = REQUIRED_COLUMNS
           \<and> map (map fst) (rows out) = replicate (length (rows df)) REQUIRED_COLUMNS
           \<and> (\<forall>c \<in> set REQUIRED_COLUMNS. column c out = column c df)"
    by blast
qed

theorem C8_schema_check_witness:
  "\<not> set REQUIRED_COLUMNS \<subseteq> set (columns ex8_missing)
   \<and> validator_process_file ex8_missing init_vmetrics =
        (Inl ValueError, init_vmetrics\<lparr>total_records := 1, schema_errors := 1\<rparr>)
   \<and> set REQUIRED_COLUMNS \<subseteq> set (columns ex8_extra)
   \<and> (\<exists>out. validate_schema ex8_extra init_vmetrics = (Inr out, init_vmetrics)
         \<and> columns out = REQUIRED_COLUMNS
         \<and> map (map fst) (rows out) = [REQUIRED_COLUMNS]
         \<and> column ''customer_id'' out = [Txt ''C1''])"
proof -
  have a: "\<not> set REQUIRED_COLUMNS \<subseteq> set (columns ex8_missing)"
    by (simp add: REQUIRED_COLUMNS_def ex8_missing_def)
  have b: "set REQUIRED_COLUMNS \<subseteq> set (columns ex8_extra)"
    by (simp add: REQUIRED_COLUMNS_def ex8_extra_def)
  have c: "column ''customer_id'' ex8_extra = [Txt ''C1'']" "length (rows ex8_extra) = 1"
    by (simp_all add: column_def ex8_extra_def)
  have d: "length (rows ex8_missing) = 1" "schema_errors init_vmetrics = 0"
    by (simp_all add: ex8_missing_def init_vmetrics_def)
  have e: "''customer_id'' \<in> set REQUIRED_COLUMNS"
    by (simp add: REQUIRED_COLUMNS_def)
  from C8_schema_check [of ex8_missing init_vmetrics] a d
  have m: "validator_process_file ex8_missing init_vmetrics =
        (Inl ValueError, init_vmetrics\<lparr>total_records := 1, schema_errors := 1\<rparr>)"
    by simp
  from C8_schema_check [of ex8_extra init_vmetrics] b
  obtain out where o: "validate_schema ex8_extra init_vmetrics = (Inr out, init_vmetrics)"
      "columns out = REQUIRED_COLUMNS"
      "map (map fst) (rows out) = replicate (length (rows ex8_extra)) REQUIRED_COLUMNS"
      "\<forall>c \<in> set REQUIRED_COLUMNS. column c out = column c ex8_extra"
    by blast
  from o c e have p: "map (map fst) (rows out) = [REQUIRED_COLUMNS]" "column ''customer_id'' out = [Txt ''C1'']"
    by simp_all
  from o(1,2) p have "\<exists>out. validate_schema ex8_extra init_vmetrics = (Inr out, init_vmetrics)
         \<and> columns out = REQUIRED_COLUMNS
         \<and> map (map fst) (rows out) = [REQUIRED_COLUMNS]
         \<and> column ''customer_id'' out = [Txt ''C1'']"
    by (intro exI [of _ out] conjI)
  with a b m show ?thesis by (intro conjI)
qed

section \<open>The empty batch\<close>

text \<open>
  Claim C2. For a batch with no record the claim wants the validator to return metrics with a
  rejection rate of 0. The code divides by the number of records instead: on every batch
  without records that has the required columns, \<^verbatim>\<open>process_file\<close> raises ZeroDivisionError
  when it computes the rate, after all counters have been left at 0.
\<close>

theorem C2_empty_batch_raises:
  assumes "rows df = []" and "set REQUIRED_COLUMNS \<subseteq> set (columns df)"
  shows "validator_process_file df init_vmetrics = (Inl ZeroDivisionError, init_vmetrics)"
  using assms
  by (simp add: validator_process_file_def init_vmetrics_def validate_schema_def
      select_columns_def remove_duplicates_def remove_nulls_def dropna_def validate_data_types_def
      set_column_def validate_dates_def validate_business_rules_def py_true_div_def Let_def)

theorem C2_empty_batch_raises_witness:
  "rows empty_batch = [] \<and> set REQUIRED_COLUMNS \<subseteq> set (columns empty_batch)
   \<and> fst (validator_process_file empty_batch init_vmetrics) = Inl ZeroDivisionError
   \<and> valid_records (snd (validator_process_file empty_batch init_vmetrics)) = 0
   \<and> rejection_rate_percent (snd (validator_process_file empty_batch init_vmetrics)) = None"
  using C2_empty_batch_raises [of empty_batch]
  by (simp add: empty_batch_def init_vmetrics_def)

section \<open>Business rules\<close>

lemma cell_bounds_Num:
  "cell_lt (Num q) b \<longleftrightarrow> q < b" "cell_gt (Num q) b \<longleftrightarrow> q > b"
  "cell_le (Num q) b \<longleftrightarrow> q \<le> b" "cell_ge (Num q) b \<longleftrightarrow> q \<ge> b"
  by (simp_all add: cell_lt_def cell_gt_def cell_le_def cell_ge_def)

lemma isin_iff: "isin c vs \<longleftrightarrow> (\<exists>s \<in> set vs. c = Txt s)"
  by (cases c) (auto simp: isin_def)

lemma numeric_columnsD:
  assumes "numeric_columns names df" and "r \<in> set (rows df)" and "c \<in> set names"
  shows "\<exists>x. get r c = Num x"
proof -
  from assms have "case get r c of Num x \<Rightarrow> True | _ \<Rightarrow> False"
    unfolding numeric_columns_def by blast
  then show ?thesis by (cases "get r c") auto
qed

lemma filter_cong_set: "(\<And>x. x \<in> set xs \<Longrightarrow> P x = Q x) \<Longrightarrow> filter P xs = filter Q xs"
  by (rule filter_cong) auto

text \<open>
  Claim C5. Of the records that enter the business-rule step (their quantity and price are
  numbers), exactly those are kept whose quantity and price lie in the inclusive bounds and
  whose region is a valid one; the kept records keep their order. Each of the three counters
  is the number of entering records that violate that one dimension, whatever the other
  dimensions say, and no other counter changes.
\<close>

theorem C5_business_rules:
  assumes num: "numeric_columns [''quantity'', ''price''] df"
  shows "\<exists>out m'. validate_business_rules df m = (out, m')
     \<and> columns out = columns df
     \<and> rows out = filter (\<lambda>r. r \<in> set (rows out)) (rows df)
     \<and> (\<forall>r \<in> set (rows df). \<forall>q p. get r ''quantity'' = Num q \<and> get r ''price'' = Num p \<longrightarrow>
           (r \<in> set (rows out) \<longleftrightarrow>
              MIN_QUANTITY \<le> q \<and> q \<le> MAX_QUANTITY \<and> MIN_PRICE \<le> p \<and> p \<le> MAX_PRICE \<and>
              (\<exists>s \<in> set VALID_REGIONS. get r ''region'' = Txt s)))
     \<and> invalid_quantity m' = length (filter
           (\<lambda>r. \<not> (\<exists>q. get r ''quantity'' = Num q \<and> MIN_QUANTITY \<le> q \<and> q \<le> MAX_QUANTITY)) (rows df))
     \<and> invalid_price m' = length (filter
           (\<lambda>r. \<not> (\<exists>p. get r ''price'' = Num p \<and> MIN_PRICE \<le> p \<and> p \<le> MAX_PRICE)) (rows df))
     \<and> invalid_region m' = length (filter
           (\<lambda>r. \<not> (\<exists>s \<in> set VALID_REGIONS. get r ''region'' = Txt s)) (rows df))
     \<and> m' = m\<lparr>invalid_quantity := invalid_quantity m', invalid_price := invalid_price m',
                invalid_region := invalid_region m'\<rparr>"
proof -
  define keep where "keep = (\<lambda>r.
      cell_ge (get r ''quantity'') MIN_QUANTITY \<and> cell_le (get r ''quantity'') MAX_QUANTITY \<and>
      cell_ge (get r ''price'') MIN_PRICE \<and> cell_le (get r ''price'') MAX_PRICE \<and>
      isin (get r ''region'') VALID_REGIONS)"
  define out where "out = fst (validate_business_rules df m)"
  define m' where "m' = snd (validate_business_rules df m)"
  have res: "validate_business_rules df m = (out, m')"
    by (simp add: out_def m'_def)
  have rows_out: "rows out = filter keep (rows df)"
    by (simp add: out_def validate_business_rules_def Let_def keep_def)
  have cols: "columns out = columns df"
    by (simp add: out_def validate_business_rules_def Let_def)
  have self: "rows out = filter (\<lambda>r. r \<in> set (rows out)) (rows df)"
    unfolding rows_out by (rule filter_cong_set) auto
  have kept: "\<forall>r \<in> set (rows df). \<forall>q p. get r ''quantity'' = Num q \<and> get r ''price'' = Num p \<longrightarrow>
           (r \<in> set (rows out) \<longleftrightarrow>
              MIN_QUANTITY \<le> q \<and> q \<le> MAX_QUANTITY \<and> MIN_PRICE \<le> p \<and> p \<le> MAX_PRICE \<and>
              (\<exists>s \<in> set VALID_REGIONS. get r ''region'' = Txt s))"
    unfolding rows_out by (auto simp: keep_def cell_bounds_Num isin_iff)
  have iq: "invalid_quantity m' = length (filter
           (\<lambda>r. \<not> (\<exists>q. get r ''quantity'' = Num q \<and> MIN_QUANTITY \<le> q \<and> q \<le> MAX_QUANTITY)) (rows df))"
  proof -
    have "filter (\<lambda>r. cell_lt (get r ''quantity'') MIN_QUANTITY \<or> cell_gt (get r ''quantity'') MAX_QUANTITY) (rows df)
        = filter (\<lambda>r. \<not> (\<exists>q. get r ''quantity'' = Num q \<and> MIN_QUANTITY \<le> q \<and> q \<le> MAX_QUANTITY)) (rows df)"
    proof (rule filter_cong_set)
      fix r assume "r \<in> set (rows df)"
      with numeric_columnsD [OF num, of r "''quantity''"] obtain q where "get r ''quantity'' = Num q"
        by auto
      then show "(cell_lt (get r ''quantity'') MIN_QUANTITY \<or> cell_gt (get r ''quantity'') MAX_QUANTITY)
          = (\<not> (\<exists>q. get r ''quantity'' = Num q \<and> MIN_QUANTITY \<le> q \<and> q \<le> MAX_QUANTITY))"
        by (auto simp: cell_bounds_Num)
    qed
    then show ?thesis
      by (simp add: m'_def validate_business_rules_def Let_def)
  qed
  have ip: "invalid_price m' = length (filter
           (\<lambda>r. \<not> (\<exists>p. get r ''price'' = Num p \<and> MIN_PRICE \<le> p \<and> p \<le> MAX_PRICE)) (rows df))"
  proof -
    have "filter (\<lambda>r. cell_lt (get r ''price'') MIN_PRICE \<or> cell_gt (get r ''price'') MAX_PRICE) (rows df)
        = filter (\<lambda>r. \<not> (\<exists>p. get r ''price'' = Num p \<and> MIN_PRICE \<le> p \<and> p \<le> MAX_PRICE)) (rows df)"
    proof (rule filter_cong_set)
      fix r assume "r \<in> set (rows df)"
      with numeric_columnsD [OF num, of r "''price''"] obtain p where "get r ''price'' = Num p"
        by auto
      then show "(cell_lt (get r ''price'') MIN_PRICE \<or> cell_gt (get r ''price'') MAX_PRICE)
          = (\<not> (\<exists>p. get r ''price'' = Num p \<and> MIN_PRICE \<le> p \<and> p \<le> MAX_PRICE))"
        by (auto simp: cell_bounds_Num)
    qed
    then show ?thesis
      by (simp add: m'_def validate_business_rules_def Let_def)
  qed
  have ir: "invalid_region m' = length (filter
           (\<lambda>r. \<not> (\<exists>s \<in> set VALID_REGIONS. get r ''region'' = Txt s)) (rows df))"
    by (simp add: m'_def validate_business_rules_def Let_def isin_iff)
  have rest: "m' = m\<lparr>invalid_quantity := invalid_quantity m', invalid_price := invalid_price m',
                invalid_region := invalid_region m'\<rparr>"
    by (simp add: m'_def validate_business_rules_def Let_def)
  from res cols self kept iq ip ir rest show ?thesis
    by (intro exI [of _ out] exI [of _ m'] conjI)
qed

lemmas ex5_rows_defs = ex5_at_bound_def ex5_above_bound_def ex5_two_violations_def ex5_free_def

theorem C5_business_rules_witness:
  "numeric_columns [''quantity'', ''price''] ex5
   \<and> rows (fst (validate_business_rules ex5 init_vmetrics)) = [ex5_at_bound]
   \<and> invalid_quantity (snd (validate_business_rules ex5 init_vmetrics)) = 2
   \<and> invalid_price (snd (validate_business_rules ex5 init_vmetrics)) = 1
   \<and> invalid_region (snd (validate_business_rules ex5 init_vmetrics)) = 1"
proof -
  have n: "numeric_columns [''quantity'', ''price''] ex5"
    by (simp add: numeric_columns_def ex5_def ex5_rows_defs)
  from C5_business_rules [OF n, of init_vmetrics]
  obtain out m' where r: "validate_business_rules ex5 init_vmetrics = (out, m')"
    and k: "rows out = filter (\<lambda>r. r \<in> set (rows out)) (rows ex5)"
    and mem: "\<forall>r \<in> set (rows ex5). \<forall>q p. get r ''quantity'' = Num q \<and> get r ''price'' = Num p \<longrightarrow>
           (r \<in> set (rows out) \<longleftrightarrow>
              MIN_QUANTITY \<le> q \<and> q \<le> MAX_QUANTITY \<and> MIN_PRICE \<le> p \<and> p \<le> MAX_PRICE \<and>
              (\<exists>s \<in> set VALID_REGIONS. get r ''region'' = Txt s))"
    and iq: "invalid_quantity m' = length (filter
           (\<lambda>r. \<not> (\<exists>q. get r ''quantity'' = Num q \<and> MIN_QUANTITY \<le> q \<and> q \<le> MAX_QUANTITY)) (rows ex5))"
    and ip: "invalid_price m' = length (filter
           (\<lambda>r. \<not> (\<exists>p. get r ''price'' = Num p \<and> MIN_PRICE \<le> p \<and> p \<le> MAX_PRICE)) (rows ex5))"
    and ir: "invalid_region m' = length (filter
           (\<lambda>r. \<not> (\<exists>s \<in> set VALID_REGIONS. get r ''region'' = Txt s)) (rows ex5))"
    by blast
  have rows5: "rows ex5 = [ex5_at_bound, ex5_above_bound, ex5_two_violations, ex5_free]"
    by (simp add: ex5_def)
  have cells: "get ex5_at_bound ''quantity'' = Num 1000" "get ex5_at_bound ''price'' = Num 10"
      "get ex5_at_bound ''region'' = Txt ''North''"
      "get ex5_above_bound ''quantity'' = Num 1001" "get ex5_above_bound ''price'' = Num 10"
      "get ex5_two_violations ''quantity'' = Num 0" "get ex5_two_violations ''price'' = Num 10"
      "get ex5_two_violations ''region'' = Txt ''Mars''"
      "get ex5_free ''quantity'' = Num 5" "get ex5_free ''price'' = Num 0"
      "get ex5_above_bound ''region'' = Txt ''North''" "get ex5_free ''region'' = Txt ''South''"
    by (simp_all add: ex5_rows_defs)
  have m0: "ex5_at_bound \<in> set (rows out)"
    using mem cells by (simp add: rows5 MIN_QUANTITY_def MAX_QUANTITY_def MIN_PRICE_def MAX_PRICE_def
        VALID_REGIONS_def)
  have m1: "ex5_above_bound \<notin> set (rows out)"
    using mem cells by (simp add: rows5 MIN_QUANTITY_def MAX_QUANTITY_def)
  have m2: "ex5_two_violations \<notin> set (rows out)"
    using mem cells by (simp add: rows5 MIN_QUANTITY_def MAX_QUANTITY_def)
  have m3: "ex5_free \<notin> set (rows out)"
    using mem cells by (simp add: rows5 MIN_PRICE_def MAX_PRICE_def)
  have "filter (\<lambda>r. r \<in> set (rows out)) (rows ex5) = [ex5_at_bound]"
    by (simp add: rows5 m0 m1 m2 m3)
  with k have c: "rows out = [ex5_at_bound]"
    by simp
  have iq': "invalid_quantity m' = 2"
    unfolding iq by (simp add: rows5 cells MIN_QUANTITY_def MAX_QUANTITY_def)
  have ip': "invalid_price m' = 1"
    unfolding ip by (simp add: rows5 cells MIN_PRICE_def MAX_PRICE_def)
  have ir': "invalid_region m' = 1"
    unfolding ir by (simp add: rows5 cells VALID_REGIONS_def)
  from n c iq' ip' ir' r show ?thesis by simp
qed

end
